theory Spec2Isabelle
  imports Main "HOL-Library.Word"
begin

unbundle bit_operations_syntax

section \<open>The Gecko watchdog driver\<close>

text \<open>
  The driver quantizes a requested timeout and window onto the period selectors of the
  watchdog peripheral, keeps one staged configuration per device and drives the
  peripheral through the vendor library. The embedding follows the C file function by
  function. \<open>u32_t\<close> and \<open>u8_t\<close> are 32-bit and 8-bit words. The loop counters
  \<open>idx\<close> are C \<open>int\<close>s that only ever hold values between 0 and 16, so they are
  natural numbers here.
\<close>

type_synonym u32 = "32 word"
type_synonym u8 = "8 word"

subsection \<open>Quantizer\<close>

text \<open>\<open>static const u32_t timeout_in_cycles_tbl[16]\<close>: the timeout period in cycles.\<close>

definition timeout_in_cycles_tbl :: "u32 list" where
  "timeout_in_cycles_tbl =
     [9, 17, 33, 65, 129, 257, 513, 1025, 2049, 4097,
      8193, 16385, 32769, 65537, 131073, 262145]"

text \<open>
  The \<open>while\<close> loop of \<open>wdt_gecko_convert_timeout\<close>, started at any \<open>idx\<close>:
  \<open>length timeout_in_cycles_tbl\<close> is \<open>ARRAY_SIZE(timeout_in_cycles_tbl)\<close>, the
  \<open>continue\<close> is the recursive call and the \<open>break\<close> returns \<open>idx\<close>.
\<close>

function convert_timeout_loop :: "u32 \<Rightarrow> nat \<Rightarrow> nat" where
  "convert_timeout_loop timeout idx =
     (if idx < length timeout_in_cycles_tbl then
        (if timeout > timeout_in_cycles_tbl ! idx
         then convert_timeout_loop timeout (idx + 1)
         else idx)
      else idx)"
  by pat_completeness auto
termination
  by (relation "measure (\<lambda>(timeout, idx). length timeout_in_cycles_tbl - idx)") auto

definition wdt_gecko_convert_timeout :: "u32 \<Rightarrow> nat" where
  "wdt_gecko_convert_timeout timeout = convert_timeout_loop timeout 0"

text \<open>
  The \<open>while\<close> loop of \<open>wdt_gecko_convert_window\<close>, with the loop variables
  \<open>comp_val\<close> and \<open>idx\<close> as arguments; \<open>comp_val += incr_val\<close> is 32-bit addition.
\<close>

function convert_window_loop :: "u32 \<Rightarrow> u32 \<Rightarrow> u32 \<Rightarrow> nat \<Rightarrow> nat" where
  "convert_window_loop window incr_val comp_val idx =
     (if idx < 5 then
        (if window > comp_val
         then convert_window_loop window incr_val (comp_val + incr_val) (idx + 1)
         else idx)
      else idx)"
  by pat_completeness auto
termination
  by (relation "measure (\<lambda>(window, incr_val, comp_val, idx). 5 - idx)") auto

definition wdt_gecko_convert_window :: "u32 \<Rightarrow> u32 \<Rightarrow> nat" where
  "wdt_gecko_convert_window window period =
     convert_window_loop window (period div 8) 0 0"

subsection \<open>Device data\<close>

text \<open>
  \<open>WDOG_Init_TypeDef\<close> is the vendor library's initialisation structure. The record has
  the fields the driver assigns; the enumerations \<open>WDOG_PeriodSel_TypeDef\<close>,
  \<open>WDOG_WinSel_TypeDef\<close> and \<open>WDOG_WarnSel_TypeDef\<close> are their integer values, which is
  what the casts from \<open>int\<close> in \<open>wdt_gecko_install_timeout\<close> store.
\<close>

record WDOG_Init_TypeDef =
  debugRun :: bool
  em2Run :: bool
  em3Run :: bool
  perSel :: nat
  warnSel :: nat
  winSel :: nat
  resetDisable :: bool

text \<open>
  A \<open>wdt_callback_t\<close> is a function pointer: a non-null pointer is \<open>Some\<close> of its
  address, \<open>NULL\<close> is \<open>None\<close>.
\<close>

type_synonym wdt_callback_t = "nat option"

text \<open>\<open>struct wdt_gecko_data\<close>.\<close>

record wdt_gecko_data =
  callback :: wdt_callback_t
  wdog_config :: WDOG_Init_TypeDef
  timeout_valid :: bool

text \<open>
  \<open>struct wdt_timeout_cfg\<close> of the watchdog API, with the fields the driver reads:
  \<open>window.min\<close>, \<open>window.max\<close>, \<open>callback\<close> and \<open>flags\<close>.
\<close>

record wdt_timeout_cfg =
  cfg_window_min :: u32
  cfg_window_max :: u32
  cfg_callback :: wdt_callback_t
  cfg_flags :: u8

text \<open>
  The constants the driver takes from the watchdog API header and from the vendor
  library's headers. Their values are not part of the driver, so every function that
  uses one takes them as the parameter \<open>h\<close>, and every theorem holds for all values.
\<close>

record header_constants =
  WDOG_INIT_DEFAULT :: WDOG_Init_TypeDef
  wdogIllegalWindowDisable :: nat
  wdogWarnTime75pct :: nat
  WDT_FLAG_RESET_SOC :: u8
  WDT_FLAG_RESET_CPU_CORE :: u8
  WDT_FLAG_RESET_NONE :: u8
  WDT_OPT_PAUSE_IN_SLEEP :: u32
  WDT_OPT_PAUSE_HALTED_BY_DBG :: u32
  WDOG_IEN_TOUT :: u32
  WDOG_IF_WARN :: u32

text \<open>
  What the driver does outside its own data is recorded in order of execution: the calls
  into the vendor library with their arguments (\<open>WDOGn_IntGet\<close> with the value it
  returned) and the invocation of the registered callback with its channel argument.
  The log macros are recorded separately, with their message.
\<close>

datatype effect =
    WDOGn_IntEnable u32
  | WDOGn_IntDisable u32
  | WDOGn_Init WDOG_Init_TypeDef
  | WDOGn_Enable bool
  | WDOGn_Feed
  | WDOGn_IntGet u32
  | WDOGn_IntClear u32
  | CMU_OscillatorEnable_ULFRCO bool bool
  | Irq_cfg_func
  | Callback_invoked nat int

datatype log_entry = LOG_ERR string | LOG_DBG string | LOG_INF string

text \<open>
  One watchdog device: its \<open>driver_data\<close>, and what the driver has done to the
  peripheral and written to the log so far.
\<close>

record device =
  data :: wdt_gecko_data
  effects :: "effect list"
  logs :: "log_entry list"

datatype errno = EINVAL | ENOMEM

text \<open>
  An API function returns \<open>0\<close>, which is \<open>Inr ()\<close>, or a negated error number:
  \<open>-EINVAL\<close> is \<open>Inl EINVAL\<close> and \<open>-ENOMEM\<close> is \<open>Inl ENOMEM\<close>.
\<close>

type_synonym retval = "errno + unit"

definition log_msg :: "log_entry \<Rightarrow> device \<Rightarrow> device" where
  "log_msg e dev = dev\<lparr>logs := logs dev @ [e]\<rparr>"

definition do_effect :: "effect \<Rightarrow> device \<Rightarrow> device" where
  "do_effect e dev = dev\<lparr>effects := effects dev @ [e]\<rparr>"

subsection \<open>The driver API\<close>

text \<open>
  \<open>wdt_gecko_setup\<close>. The option bits are tested as the C expression does, after the
  promotion of \<open>options\<close> to the width of the constants.
\<close>

definition wdt_gecko_setup :: "header_constants \<Rightarrow> u8 \<Rightarrow> device \<Rightarrow> retval \<times> device" where
  "wdt_gecko_setup h options dev =
     (if \<not> timeout_valid (data dev) then
        (Inl EINVAL, log_msg (LOG_ERR ''No valid timeouts installed'') dev)
      else
        let c = (wdog_config (data dev))
                  \<lparr>em2Run := (ucast options AND WDT_OPT_PAUSE_IN_SLEEP h = 0),
                   em3Run := (ucast options AND WDT_OPT_PAUSE_IN_SLEEP h = 0),
                   debugRun := (ucast options AND WDT_OPT_PAUSE_HALTED_BY_DBG h = 0)\<rparr>;
            dev1 = dev\<lparr>data := (data dev)\<lparr>wdog_config := c\<rparr>\<rparr>;
            dev2 = (if callback (data dev1) \<noteq> None
                    then do_effect (WDOGn_IntEnable (WDOG_IEN_TOUT h OR WDOG_IF_WARN h)) dev1
                    else do_effect (WDOGn_IntDisable (WDOG_IEN_TOUT h OR WDOG_IF_WARN h)) dev1);
            dev3 = do_effect (WDOGn_Init (wdog_config (data dev2))) dev2
        in (Inr (), log_msg (LOG_DBG ''Setup the watchdog'') dev3))"

text \<open>\<open>wdt_gecko_disable\<close>.\<close>

definition wdt_gecko_disable :: "device \<Rightarrow> retval \<times> device" where
  "wdt_gecko_disable dev =
     (let dev1 = do_effect (WDOGn_Enable False) dev;
          dev2 = dev1\<lparr>data := (data dev1)\<lparr>timeout_valid := False\<rparr>\<rparr>
      in (Inr (), log_msg (LOG_DBG ''Disabled the watchdog'') dev2))"

text \<open>
  A read of \<open>timeout_in_cycles_tbl[i]\<close> at an index computed at run time. Outside the
  array the C read is undefined, which is \<open>None\<close>.
\<close>

definition tbl_read :: "nat \<Rightarrow> u32 option" where
  "tbl_read i =
     (if i < length timeout_in_cycles_tbl then Some (timeout_in_cycles_tbl ! i) else None)"

text \<open>
  \<open>wdt_gecko_install_timeout\<close>. The result is \<open>None\<close> when the function reads the
  table out of bounds, otherwise the return value and the device after the call. The two
  constant indices of the range check are inside the table. The assignments to
  \<open>data->wdog_config\<close> happen in the order of the source, before the \<open>switch\<close> on
  the flags, whose \<open>default\<close> branch returns with them done.
\<close>

definition wdt_gecko_install_timeout ::
  "header_constants \<Rightarrow> wdt_timeout_cfg \<Rightarrow> device \<Rightarrow> (retval \<times> device) option" where
  "wdt_gecko_install_timeout h cfg dev =
     (if timeout_valid (data dev) then
        Some (Inl ENOMEM, log_msg (LOG_ERR ''No more timeouts can be installed'') dev)
      else if cfg_window_max cfg < timeout_in_cycles_tbl ! 0 \<or>
              cfg_window_max cfg > timeout_in_cycles_tbl ! (length timeout_in_cycles_tbl - 1) then
        Some (Inl EINVAL, log_msg (LOG_ERR ''Upper limit timeout out of range'') dev)
      else
        let c1 = WDOG_INIT_DEFAULT h;
            c2 = c1\<lparr>perSel := wdt_gecko_convert_timeout (cfg_window_max cfg)\<rparr>;
            c3 = (if cfg_window_min cfg \<noteq> 0 then
                    (case tbl_read (perSel c2) of
                       None \<Rightarrow> None
                     | Some period \<Rightarrow>
                         Some (c2\<lparr>winSel := wdt_gecko_convert_window (cfg_window_min cfg) period\<rparr>))
                  else Some (c2\<lparr>winSel := wdogIllegalWindowDisable h\<rparr>))
        in case c3 of
             None \<Rightarrow> None
           | Some c3 \<Rightarrow>
               let c4 = c3\<lparr>warnSel := wdogWarnTime75pct h\<rparr> in
               if cfg_flags cfg = WDT_FLAG_RESET_SOC h \<or>
                  cfg_flags cfg = WDT_FLAG_RESET_CPU_CORE h then
                 let dev1 = dev\<lparr>data := (data dev)\<lparr>wdog_config := c4\<lparr>resetDisable := False\<rparr>\<rparr>\<rparr>;
                     dev2 = log_msg (LOG_DBG (''Configuring reset CPU/SoC mode'' @ [CHR 0x0A])) dev1
                 in Some (Inr (),
                      dev2\<lparr>data := (data dev2)\<lparr>callback := cfg_callback cfg,
                                               timeout_valid := True\<rparr>\<rparr>)
               else if cfg_flags cfg = WDT_FLAG_RESET_NONE h then
                 let dev1 = dev\<lparr>data := (data dev)\<lparr>wdog_config := c4\<lparr>resetDisable := True\<rparr>\<rparr>\<rparr>;
                     dev2 = log_msg (LOG_DBG (''Configuring non-reset mode'' @ [CHR 0x0A])) dev1
                 in Some (Inr (),
                      dev2\<lparr>data := (data dev2)\<lparr>callback := cfg_callback cfg,
                                               timeout_valid := True\<rparr>\<rparr>)
               else
                 let dev1 = dev\<lparr>data := (data dev)\<lparr>wdog_config := c4\<rparr>\<rparr>
                 in Some (Inl EINVAL,
                      log_msg (LOG_ERR ''Unsupported watchdog config flag'') dev1))"

text \<open>\<open>wdt_gecko_feed\<close>; \<open>channel_id\<close> is a C \<open>int\<close>, only compared with 0.\<close>

definition wdt_gecko_feed :: "int \<Rightarrow> device \<Rightarrow> retval \<times> device" where
  "wdt_gecko_feed channel_id dev =
     (if channel_id \<noteq> 0 then
        (Inl EINVAL, log_msg (LOG_ERR ''Invalid channel id'') dev)
      else
        (Inr (), log_msg (LOG_DBG ''Fed the watchdog'') (do_effect WDOGn_Feed dev)))"

text \<open>
  \<open>wdt_gecko_isr\<close>. The interrupt flag register belongs to the peripheral, so the value
  that \<open>WDOGn_IntGet\<close> returns is the argument \<open>pending\<close>. What the callback itself
  does is user code outside the driver; the model records that it was called, and with
  which channel.
\<close>

definition wdt_gecko_isr :: "u32 \<Rightarrow> device \<Rightarrow> device" where
  "wdt_gecko_isr pending dev =
     (let flags = pending;
          dev1 = do_effect (WDOGn_IntGet flags) dev;
          dev2 = do_effect (WDOGn_IntClear flags) dev1
      in case callback (data dev2) of
           Some cb \<Rightarrow> do_effect (Callback_invoked cb 0) dev2
         | None \<Rightarrow> dev2)"

text \<open>
  \<open>wdt_gecko_init\<close>; \<open>disable_at_boot\<close> says whether \<open>CONFIG_WDT_DISABLE_AT_BOOT\<close>
  is defined. The device name in the log line comes from the device tree.
\<close>

definition wdt_gecko_init :: "bool \<Rightarrow> string \<Rightarrow> device \<Rightarrow> retval \<times> device" where
  "wdt_gecko_init disable_at_boot dev_name dev =
     (let dev1 = (if disable_at_boot then snd (wdt_gecko_disable dev) else dev);
          dev2 = do_effect (CMU_OscillatorEnable_ULFRCO True False) dev1;
          dev3 = do_effect Irq_cfg_func dev2
      in (Inr (), log_msg (LOG_INF (''Device '' @ dev_name @ '' initialized'')) dev3))"

subsection \<open>Concrete devices and requests\<close>

text \<open>
  The device at power-on: \<open>static struct wdt_gecko_data\<close> is zero-initialised, and
  nothing has been done yet.
\<close>

definition power_on :: device where
  "power_on =
     \<lparr>data = \<lparr>callback = None,
              wdog_config = \<lparr>debugRun = False, em2Run = False, em3Run = False,
                             perSel = 0, warnSel = 0, winSel = 0, resetDisable = False\<rparr>,
              timeout_valid = False\<rparr>,
      effects = [], logs = []\<rparr>"

text \<open>
  One instance of the header constants, for running the driver on concrete requests:
  the three reset flags are 2, 1 and 0, the two option bits are bit 0 and bit 1, and
  the default initialisation selects the longest period with window and warning off.
\<close>

definition sample_headers :: header_constants where
  "sample_headers =
     \<lparr>WDOG_INIT_DEFAULT = \<lparr>debugRun = False, em2Run = False, em3Run = False,
                            perSel = 15, warnSel = 0, winSel = 0, resetDisable = False\<rparr>,
      wdogIllegalWindowDisable = 0,
      wdogWarnTime75pct = 3,
      WDT_FLAG_RESET_SOC = 2,
      WDT_FLAG_RESET_CPU_CORE = 1,
      WDT_FLAG_RESET_NONE = 0,
      WDT_OPT_PAUSE_IN_SLEEP = 1,
      WDT_OPT_PAUSE_HALTED_BY_DBG = 2,
      WDOG_IEN_TOUT = 1,
      WDOG_IF_WARN = 2\<rparr>"

text \<open>
  A request for a timeout of 1000 cycles with a window that opens after 200 cycles, a
  callback and the reset-SoC flag; the device after \<open>wdt_gecko_install_timeout\<close> has
  accepted it at power-on; and the device after \<open>wdt_gecko_setup\<close> with no option
  bit has then started the watchdog.
\<close>

definition sample_request :: wdt_timeout_cfg where
  "sample_request =
     \<lparr>cfg_window_min = 200, cfg_window_max = 1000, cfg_callback = Some 7, cfg_flags = 2\<rparr>"

definition staged_device :: device where
  "staged_device =
     \<lparr>data = \<lparr>callback = Some 7,
              wdog_config = \<lparr>debugRun = False, em2Run = False, em3Run = False,
                             perSel = 7, warnSel = 3, winSel = 2, resetDisable = False\<rparr>,
              timeout_valid = True\<rparr>,
      effects = [],
      logs = [LOG_DBG (''Configuring reset CPU/SoC mode'' @ [CHR 0x0A])]\<rparr>"

definition running_device :: device where
  "running_device =
     \<lparr>data = \<lparr>callback = Some 7,
              wdog_config = \<lparr>debugRun = True, em2Run = True, em3Run = True,
                             perSel = 7, warnSel = 3, winSel = 2, resetDisable = False\<rparr>,
              timeout_valid = True\<rparr>,
      effects = [WDOGn_IntEnable 3,
                 WDOGn_Init \<lparr>debugRun = True, em2Run = True, em3Run = True,
                             perSel = 7, warnSel = 3, winSel = 2, resetDisable = False\<rparr>],
      logs = [LOG_DBG (''Configuring reset CPU/SoC mode'' @ [CHR 0x0A]),
              LOG_DBG ''Setup the watchdog'']\<rparr>"

subsection \<open>Sequences of calls\<close>

text \<open>
  The entry points of the driver after initialisation: the four API functions and the
  interrupt handler, which returns nothing.
\<close>

datatype call =
    Install_timeout wdt_timeout_cfg
  | Setup u8
  | Feed int
  | Disable
  | Isr u32

fun exec_call :: "header_constants \<Rightarrow> call \<Rightarrow> device \<Rightarrow> (retval \<times> device) option" where
  "exec_call h (Install_timeout cfg) dev = wdt_gecko_install_timeout h cfg dev"
| "exec_call h (Setup options) dev = Some (wdt_gecko_setup h options dev)"
| "exec_call h (Feed channel_id) dev = Some (wdt_gecko_feed channel_id dev)"
| "exec_call h Disable dev = Some (wdt_gecko_disable dev)"
| "exec_call h (Isr pending) dev = Some (Inr (), wdt_gecko_isr pending dev)"

fun exec_calls :: "header_constants \<Rightarrow> call list \<Rightarrow> device \<Rightarrow> device option" where
  "exec_calls h [] dev = Some dev"
| "exec_calls h (c # cs) dev =
     (case exec_call h c dev of
        None \<Rightarrow> None
      | Some (r, dev') \<Rightarrow> exec_calls h cs dev')"

declare convert_timeout_loop.simps [simp del]
declare convert_window_loop.simps [simp del]

section \<open>Properties of the quantizer\<close>

subsection \<open>The period table and the timeout search\<close>

lemma tbl_length: "length timeout_in_cycles_tbl = 16"
  by (simp add: timeout_in_cycles_tbl_def)

lemma tbl_first: "timeout_in_cycles_tbl ! 0 = 9"
  by (simp add: timeout_in_cycles_tbl_def)

lemma tbl_last: "timeout_in_cycles_tbl ! 15 = 262145"
  by (simp add: timeout_in_cycles_tbl_def)

lemma convert_timeout_loop_ge: "idx \<le> convert_timeout_loop t idx"
proof (induction t idx rule: convert_timeout_loop.induct)
  case (1 timeout idx)
  show ?case
  proof (cases "idx < length timeout_in_cycles_tbl \<and> timeout > timeout_in_cycles_tbl ! idx")
    case True
    then have "idx + 1 \<le> convert_timeout_loop timeout (idx + 1)"
      using "1.IH" by simp
    moreover have "convert_timeout_loop timeout idx = convert_timeout_loop timeout (idx + 1)"
      using True by (subst convert_timeout_loop.simps) simp
    ultimately show ?thesis by simp
  next
    case False
    then have "convert_timeout_loop timeout idx = idx"
      by (subst convert_timeout_loop.simps) auto
    then show ?thesis by simp
  qed
qed

lemma convert_timeout_loop_spec:
  "idx \<le> 16 \<Longrightarrow>
   convert_timeout_loop t idx \<le> 16 \<and>
   (convert_timeout_loop t idx < 16 \<longrightarrow> t \<le> timeout_in_cycles_tbl ! convert_timeout_loop t idx) \<and>
   (\<forall>j. idx \<le> j \<and> j < convert_timeout_loop t idx \<longrightarrow> timeout_in_cycles_tbl ! j < t)"
proof (induction t idx rule: convert_timeout_loop.induct)
  case (1 timeout idx)
  show ?case
  proof (cases "idx < length timeout_in_cycles_tbl \<and> timeout > timeout_in_cycles_tbl ! idx")
    case True
    have eq: "convert_timeout_loop timeout idx = convert_timeout_loop timeout (idx + 1)"
      using True by (subst convert_timeout_loop.simps) simp
    have le: "idx + 1 \<le> 16" using True by (simp add: tbl_length)
    have IH: "convert_timeout_loop timeout (idx + 1) \<le> 16 \<and>
      (convert_timeout_loop timeout (idx + 1) < 16 \<longrightarrow>
         timeout \<le> timeout_in_cycles_tbl ! convert_timeout_loop timeout (idx + 1)) \<and>
      (\<forall>j. idx + 1 \<le> j \<and> j < convert_timeout_loop timeout (idx + 1) \<longrightarrow>
         timeout_in_cycles_tbl ! j < timeout)"
      using "1.IH" True le by simp
    have below: "timeout_in_cycles_tbl ! j < timeout"
      if "idx \<le> j" "j < convert_timeout_loop timeout (idx + 1)" for j
    proof (cases "j = idx")
      case True
      with \<open>idx < length timeout_in_cycles_tbl \<and> timeout > timeout_in_cycles_tbl ! idx\<close>
      show ?thesis by simp
    next
      case False
      with that have "idx + 1 \<le> j" by simp
      with IH that show ?thesis by blast
    qed
    show ?thesis
      unfolding eq using IH below by blast
  next
    case False
    have eq: "convert_timeout_loop timeout idx = idx"
      using False by (subst convert_timeout_loop.simps) auto
    show ?thesis
      unfolding eq using False "1.prems" by (auto simp: tbl_length)
  qed
qed

lemma convert_timeout_loop_mono:
  "a \<le> b \<Longrightarrow> convert_timeout_loop a idx \<le> convert_timeout_loop b idx"
proof (induction a idx rule: convert_timeout_loop.induct)
  case (1 timeout idx)
  show ?case
  proof (cases "idx < length timeout_in_cycles_tbl \<and> timeout > timeout_in_cycles_tbl ! idx")
    case True
    then have "b > timeout_in_cycles_tbl ! idx"
      using "1.prems" by (blast intro: order.strict_trans2)
    then have "convert_timeout_loop b idx = convert_timeout_loop b (idx + 1)"
      using True by (subst convert_timeout_loop.simps) simp
    moreover have "convert_timeout_loop timeout idx = convert_timeout_loop timeout (idx + 1)"
      using True by (subst convert_timeout_loop.simps) simp
    moreover have "convert_timeout_loop timeout (idx + 1) \<le> convert_timeout_loop b (idx + 1)"
      using "1.IH" True "1.prems" by simp
    ultimately show ?thesis by simp
  next
    case False
    then have "convert_timeout_loop timeout idx = idx"
      by (subst convert_timeout_loop.simps) auto
    then show ?thesis by (simp add: convert_timeout_loop_ge)
  qed
qed

lemma tbl_le_last: "j < 16 \<Longrightarrow> timeout_in_cycles_tbl ! j \<le> 262145"
proof -
  assume "j < 16"
  then have "timeout_in_cycles_tbl ! j \<in> set timeout_in_cycles_tbl"
    by (simp add: tbl_length)
  then show ?thesis
    by (auto simp: timeout_in_cycles_tbl_def)
qed

text \<open>
  Claim C3. For every requested value from \<open>timeout_in_cycles_tbl[0] = 9\<close> to
  \<open>timeout_in_cycles_tbl[15] = 262145\<close>, \<open>wdt_gecko_convert_timeout\<close> returns an
  index inside the table whose entry is at least the request, and no smaller index has
  such an entry; so it is the one smallest such index. It returns 0 for 9, 1 for 10 and
  15 for 262145. For a request greater than every entry it returns 16, one past the
  table.
\<close>

theorem convert_timeout_ceiling:
  "timeout_in_cycles_tbl ! 0 = 9 \<and> timeout_in_cycles_tbl ! 15 = 262145 \<and>
   (9 \<le> requested \<and> requested \<le> 262145 \<longrightarrow>
      wdt_gecko_convert_timeout requested < 16 \<and>
      requested \<le> timeout_in_cycles_tbl ! wdt_gecko_convert_timeout requested \<and>
      (\<forall>j<16. requested \<le> timeout_in_cycles_tbl ! j \<longrightarrow>
                wdt_gecko_convert_timeout requested \<le> j)) \<and>
   ((\<forall>x \<in> set timeout_in_cycles_tbl. x < requested) \<longrightarrow>
      wdt_gecko_convert_timeout requested = 16) \<and>
   wdt_gecko_convert_timeout 9 = 0 \<and>
   wdt_gecko_convert_timeout 10 = 1 \<and>
   wdt_gecko_convert_timeout 262145 = 15"
proof -
  let ?r = "wdt_gecko_convert_timeout requested"
  have spec: "?r \<le> 16"
      "?r < 16 \<Longrightarrow> requested \<le> timeout_in_cycles_tbl ! ?r"
      "\<And>j. j < ?r \<Longrightarrow> timeout_in_cycles_tbl ! j < requested"
    using convert_timeout_loop_spec [of 0 requested]
    by (simp_all add: wdt_gecko_convert_timeout_def)
  have lo: "?r < 16" if "requested \<le> 262145"
  proof (rule ccontr)
    assume "\<not> ?r < 16"
    then have "15 < ?r" by simp
    from spec(3) [OF this] that show False by (simp add: tbl_last)
  qed
  have least: "?r \<le> j" if "requested \<le> timeout_in_cycles_tbl ! j" for j
  proof (rule ccontr)
    assume "\<not> ?r \<le> j"
    then have "j < ?r" by simp
    from spec(3) [OF this] that show False by simp
  qed
  have hi: "?r = 16" if all: "\<forall>x \<in> set timeout_in_cycles_tbl. x < requested"
  proof (rule ccontr)
    assume "?r \<noteq> 16"
    with spec(1) have lt: "?r < 16" by simp
    then have "timeout_in_cycles_tbl ! ?r \<in> set timeout_in_cycles_tbl"
      by (simp add: tbl_length)
    with all have "timeout_in_cycles_tbl ! ?r < requested" by blast
    with spec(2) [OF lt] show False by simp
  qed
  have ex: "wdt_gecko_convert_timeout 9 = 0" "wdt_gecko_convert_timeout 10 = 1"
      "wdt_gecko_convert_timeout 262145 = 15"
    by code_simp+
  show ?thesis
    using tbl_first tbl_last lo spec(2) least hi ex by blast
qed

text \<open>The theorem at the requests 1000, inside the table's range, and 300000, above it.\<close>

theorem convert_timeout_ceiling_witness:
  "(9::u32) \<le> 1000 \<and> (1000::u32) \<le> 262145 \<and>
   wdt_gecko_convert_timeout 1000 = 7 \<and>
   (1000::u32) \<le> timeout_in_cycles_tbl ! 7 \<and>
   timeout_in_cycles_tbl ! 6 < (1000::u32) \<and>
   timeout_in_cycles_tbl ! 15 < (300000::u32) \<and>
   wdt_gecko_convert_timeout 300000 = 16"
proof -
  have in_range: "(9::u32) \<le> 1000 \<and> (1000::u32) \<le> 262145"
    by simp
  have above: "\<forall>x \<in> set timeout_in_cycles_tbl. x < 300000"
    by (simp add: timeout_in_cycles_tbl_def)
  have val: "wdt_gecko_convert_timeout 1000 = 7"
    by code_simp
  have entries: "timeout_in_cycles_tbl ! 6 < (1000::u32)"
      "timeout_in_cycles_tbl ! 15 < (300000::u32)"
    by (simp_all add: timeout_in_cycles_tbl_def)
  from convert_timeout_ceiling [of 1000] in_range
  have "(1000::u32) \<le> timeout_in_cycles_tbl ! wdt_gecko_convert_timeout 1000"
    by blast
  moreover from convert_timeout_ceiling [of 300000] above
  have "wdt_gecko_convert_timeout 300000 = 16"
    by blast
  ultimately show ?thesis
    using in_range val entries by simp
qed

text \<open>
  Claim C7. \<open>wdt_gecko_convert_timeout\<close> is monotonic: a request that is not smaller
  gets an index that is not smaller.
\<close>

theorem convert_timeout_monotonic:
  "a \<le> b \<Longrightarrow> wdt_gecko_convert_timeout a \<le> wdt_gecko_convert_timeout b"
  unfolding wdt_gecko_convert_timeout_def by (rule convert_timeout_loop_mono)

text \<open>The theorem at the requests 100 and 5000, which get the indices 4 and 10.\<close>

theorem convert_timeout_monotonic_witness:
  "(100::u32) \<le> 5000 \<and> wdt_gecko_convert_timeout 100 \<le> wdt_gecko_convert_timeout 5000 \<and>
   wdt_gecko_convert_timeout 100 = 4 \<and> wdt_gecko_convert_timeout 5000 = 10"
proof -
  have le: "(100::u32) \<le> 5000" by simp
  have "wdt_gecko_convert_timeout 100 = 4" "wdt_gecko_convert_timeout 5000 = 10"
    by code_simp+
  with le convert_timeout_monotonic [OF le] show ?thesis by simp
qed

subsection \<open>The window search\<close>

text \<open>
  The loop keeps \<open>comp_val = idx * incr_val\<close>. The sum cannot wrap around:
  \<open>incr_val\<close> is an eighth of a 32-bit value and is added at most five times.
\<close>


lemma convert_window_loop_spec:
  "idx \<le> 5 \<Longrightarrow> unat comp_val = idx * unat incr_val \<Longrightarrow> unat incr_val < 2 ^ 29 \<Longrightarrow>
   convert_window_loop window incr_val comp_val idx \<le> 5 \<and>
   (convert_window_loop window incr_val comp_val idx < 5 \<longrightarrow>
      unat window \<le> convert_window_loop window incr_val comp_val idx * unat incr_val) \<and>
   (\<forall>j. idx \<le> j \<and> j < convert_window_loop window incr_val comp_val idx \<longrightarrow>
      j * unat incr_val < unat window)"
proof (induction window incr_val comp_val idx rule: convert_window_loop.induct)
  case (1 window incr_val comp_val idx)
  show ?case
  proof (cases "idx < 5 \<and> window > comp_val")
    case True
    have eq: "convert_window_loop window incr_val comp_val idx =
              convert_window_loop window incr_val (comp_val + incr_val) (idx + 1)"
      using True by (subst convert_window_loop.simps) simp
    have "idx \<le> 4"
      using True by simp
    then have "idx * unat incr_val \<le> 4 * unat incr_val"
      by (rule mult_le_mono1)
    moreover have "unat incr_val < 536870912"
      using "1.prems"(3) by simp
    ultimately have "unat comp_val + unat incr_val < 4294967296"
      using "1.prems"(2) by linarith
    then have "unat comp_val + unat incr_val < 2 ^ 32"
      by simp
    then have "unat (comp_val + incr_val) = unat comp_val + unat incr_val"
      using unat_add_lem [of comp_val incr_val] by simp
    then have inv: "unat (comp_val + incr_val) = (idx + 1) * unat incr_val"
      using "1.prems" by simp
    have IH: "convert_window_loop window incr_val (comp_val + incr_val) (idx + 1) \<le> 5 \<and>
      (convert_window_loop window incr_val (comp_val + incr_val) (idx + 1) < 5 \<longrightarrow>
         unat window \<le> convert_window_loop window incr_val (comp_val + incr_val) (idx + 1)
                          * unat incr_val) \<and>
      (\<forall>j. idx + 1 \<le> j \<and> j < convert_window_loop window incr_val (comp_val + incr_val) (idx + 1)
         \<longrightarrow> j * unat incr_val < unat window)"
      using "1.IH" True inv "1.prems" by simp
    have here: "idx * unat incr_val < unat window"
      using True "1.prems" by (simp add: word_less_nat_alt)
    have below: "j * unat incr_val < unat window"
      if "idx \<le> j" "j < convert_window_loop window incr_val (comp_val + incr_val) (idx + 1)" for j
    proof (cases "j = idx")
      case True
      with here show ?thesis by simp
    next
      case False
      with that have "idx + 1 \<le> j" by simp
      with IH that show ?thesis by blast
    qed
    show ?thesis
      unfolding eq using IH below by blast
  next
    case False
    have eq: "convert_window_loop window incr_val comp_val idx = idx"
      using False by (subst convert_window_loop.simps) auto
    have "unat window \<le> idx * unat incr_val" if "idx < 5"
      using that False "1.prems" by (simp add: word_less_nat_alt)
    then show ?thesis
      unfolding eq using "1.prems" by auto
  qed
qed

lemma incr_val_bound: "unat ((period :: u32) div 8) < 2 ^ 29"
proof -
  have "unat period < 2 ^ 32"
    using unsigned_less [of period] by simp
  then show ?thesis
    by (simp add: unat_div)
qed

text \<open>
  Claim C1 says that \<open>wdt_gecko_convert_window\<close> never returns more than 4 and
  returns 1 for a minimum of 8193 cycles in a period of 65537. The loop runs while
  \<open>idx < 5\<close>, so it counts up to 5, the selector of the 62.5 per cent window that the
  comment in the function names (5 * 12.5 per cent). An eighth of 65537 is 8192, which
  8193 exceeds, so the answer there is 2; and for a minimum equal to the period it is 5.
\<close>

theorem convert_window_saturates_at_4_counterexample:
  "wdt_gecko_convert_window 8193 65537 \<noteq> 1 \<and> \<not> wdt_gecko_convert_window 65537 65537 \<le> 4"
proof -
  have "wdt_gecko_convert_window 8193 65537 = 2" "wdt_gecko_convert_window 65537 65537 = 5"
    by code_simp+
  then show ?thesis by simp
qed

text \<open>
  Claim C1, amended: the bound is 5. For every period and every requested minimum,
  \<open>wdt_gecko_convert_window\<close> returns an index of at most 5. When the request is at
  most five eighths of the period (the eighth rounded down), the index times the eighth
  covers the request and no smaller index does; when the request is larger, the result
  is 5. It returns 0 for a minimum of 0 and 2 for a minimum of 8193 in a period of
  65537. The products are taken in the natural numbers.
\<close>

theorem convert_window_ceiling:
  "wdt_gecko_convert_window requested_min period_cycles \<le> 5 \<and>
   (unat requested_min \<le> 5 * (unat period_cycles div 8) \<longrightarrow>
      unat requested_min
        \<le> wdt_gecko_convert_window requested_min period_cycles * (unat period_cycles div 8) \<and>
      (\<forall>j. unat requested_min \<le> j * (unat period_cycles div 8) \<longrightarrow>
             wdt_gecko_convert_window requested_min period_cycles \<le> j)) \<and>
   (5 * (unat period_cycles div 8) < unat requested_min \<longrightarrow>
      wdt_gecko_convert_window requested_min period_cycles = 5) \<and>
   wdt_gecko_convert_window 0 65537 = 0 \<and>
   wdt_gecko_convert_window 8193 65537 = 2"
proof -
  let ?r = "wdt_gecko_convert_window requested_min period_cycles"
  let ?i = "unat period_cycles div 8"
  have i: "unat (period_cycles div 8) = ?i"
    by (simp add: unat_div)
  have spec: "?r \<le> 5" "?r < 5 \<Longrightarrow> unat requested_min \<le> ?r * ?i"
      "\<And>j. j < ?r \<Longrightarrow> j * ?i < unat requested_min"
    using convert_window_loop_spec [of 0 0 "period_cycles div 8" requested_min]
      incr_val_bound [of period_cycles]
    by (simp_all add: wdt_gecko_convert_window_def i)
  have within: "unat requested_min \<le> ?r * ?i" if "unat requested_min \<le> 5 * ?i"
  proof (cases "?r < 5")
    case True
    then show ?thesis by (rule spec(2))
  next
    case False
    with spec(1) have "?r = 5" by simp
    with that show ?thesis by simp
  qed
  have sat: "?r = 5" if "5 * ?i < unat requested_min"
  proof (rule ccontr)
    assume "?r \<noteq> 5"
    with spec(1) have lt: "?r < 5" by simp
    then have "?r * ?i \<le> 5 * ?i" by (intro mult_le_mono1) simp
    with spec(2) [OF lt] that show False by simp
  qed
  have least: "?r \<le> j" if "unat requested_min \<le> j * ?i" for j
  proof (rule ccontr)
    assume "\<not> ?r \<le> j"
    then have "j < ?r" by simp
    from spec(3) [OF this] that show False by simp
  qed
  have ex: "wdt_gecko_convert_window 0 65537 = 0" "wdt_gecko_convert_window 8193 65537 = 2"
    by code_simp+
  show ?thesis
    using spec(1) within sat least ex by blast
qed

text \<open>
  The theorem in a period of 65537 cycles, at the minimum 8193, which is inside five
  eighths, and at 50000, which is beyond.
\<close>

theorem convert_window_ceiling_witness:
  "unat (8193::u32) \<le> 5 * (unat (65537::u32) div 8) \<and>
   wdt_gecko_convert_window 8193 65537 = 2 \<and>
   unat (8193::u32) \<le> 2 * (unat (65537::u32) div 8) \<and>
   5 * (unat (65537::u32) div 8) < unat (50000::u32) \<and>
   wdt_gecko_convert_window 50000 65537 = 5"
proof -
  have below: "unat (8193::u32) \<le> 5 * (unat (65537::u32) div 8)"
    by simp
  have above: "5 * (unat (65537::u32) div 8) < unat (50000::u32)"
    by simp
  from convert_window_ceiling [of 8193 65537] below
  have "wdt_gecko_convert_window 8193 65537 = 2 \<and>
        unat (8193::u32)
          \<le> wdt_gecko_convert_window 8193 65537 * (unat (65537::u32) div 8)"
    by blast
  moreover from convert_window_ceiling [of 50000 65537] above
  have "wdt_gecko_convert_window 50000 65537 = 5"
    by blast
  ultimately show ?thesis
    using below above by simp
qed

section \<open>Properties of the controller\<close>

subsection \<open>The three exits of \<open>wdt_gecko_install_timeout\<close>\<close>

text \<open>
  Inside the range of the table the search ends on an entry, so the read of
  \<open>timeout_in_cycles_tbl[perSel]\<close> is defined.
\<close>

lemma convert_timeout_in_table:
  "t \<le> 262145 \<Longrightarrow> wdt_gecko_convert_timeout t < 16"
proof (rule ccontr)
  assume le: "t \<le> 262145" and "\<not> wdt_gecko_convert_timeout t < 16"
  then have "15 < convert_timeout_loop t 0"
    by (simp add: wdt_gecko_convert_timeout_def)
  with convert_timeout_loop_spec [of 0 t] have "timeout_in_cycles_tbl ! 15 < t"
    by simp
  with le show False
    by (simp add: tbl_last)
qed

lemma tbl_read_convert_timeout:
  "t \<le> 262145 \<Longrightarrow>
   tbl_read (wdt_gecko_convert_timeout t)
     = Some (timeout_in_cycles_tbl ! wdt_gecko_convert_timeout t)"
  using convert_timeout_in_table [of t] by (simp add: tbl_read_def tbl_length)

text \<open>The range check, with the two table entries it compares against evaluated.\<close>

lemma range_check:
  "(w < timeout_in_cycles_tbl ! 0 \<or>
    w > timeout_in_cycles_tbl ! (length timeout_in_cycles_tbl - 1))
   = (w < 9 \<or> 262145 < w)"
  by (simp add: tbl_length tbl_first tbl_last)

lemma install_timeout_already:
  "timeout_valid (data dev) \<Longrightarrow>
   wdt_gecko_install_timeout h cfg dev
     = Some (Inl ENOMEM, dev\<lparr>logs := logs dev @ [LOG_ERR ''No more timeouts can be installed'']\<rparr>)"
  by (simp add: wdt_gecko_install_timeout_def log_msg_def)

lemma install_timeout_out_of_range:
  "\<not> timeout_valid (data dev) \<Longrightarrow> cfg_window_max cfg < 9 \<or> 262145 < cfg_window_max cfg \<Longrightarrow>
   wdt_gecko_install_timeout h cfg dev
     = Some (Inl EINVAL, dev\<lparr>logs := logs dev @ [LOG_ERR ''Upper limit timeout out of range'']\<rparr>)"
  unfolding wdt_gecko_install_timeout_def range_check by (simp add: log_msg_def)

text \<open>
  Past both checks the function resolves a configuration \<open>c\<close> and then either commits
  it, with the callback and the valid flag, or rejects the flags.
\<close>

lemma install_timeout_in_range:
  assumes "\<not> timeout_valid (data dev)"
    and "9 \<le> cfg_window_max cfg" and "cfg_window_max cfg \<le> 262145"
  shows "\<exists>c. perSel c = wdt_gecko_convert_timeout (cfg_window_max cfg) \<and>
     wdt_gecko_install_timeout h cfg dev =
       Some (if cfg_flags cfg = WDT_FLAG_RESET_SOC h \<or> cfg_flags cfg = WDT_FLAG_RESET_CPU_CORE h
             then (Inr (),
               dev\<lparr>data := \<lparr>callback = cfg_callback cfg, wdog_config = c\<lparr>resetDisable := False\<rparr>,
                             timeout_valid = True\<rparr>,
                   logs := logs dev @ [LOG_DBG (''Configuring reset CPU/SoC mode'' @ [CHR 0x0A])]\<rparr>)
             else if cfg_flags cfg = WDT_FLAG_RESET_NONE h
             then (Inr (),
               dev\<lparr>data := \<lparr>callback = cfg_callback cfg, wdog_config = c\<lparr>resetDisable := True\<rparr>,
                             timeout_valid = True\<rparr>,
                   logs := logs dev @ [LOG_DBG (''Configuring non-reset mode'' @ [CHR 0x0A])]\<rparr>)
             else (Inl EINVAL,
               dev\<lparr>data := (data dev)\<lparr>wdog_config := c\<rparr>,
                   logs := logs dev @ [LOG_ERR ''Unsupported watchdog config flag'']\<rparr>))"
proof -
  have rc: "\<not> (cfg_window_max cfg < 9 \<or> 262145 < cfg_window_max cfg)"
    using assms by auto
  have rd: "tbl_read (wdt_gecko_convert_timeout (cfg_window_max cfg))
     = Some (timeout_in_cycles_tbl ! wdt_gecko_convert_timeout (cfg_window_max cfg))"
    using assms(3) by (rule tbl_read_convert_timeout)
  show ?thesis
  proof (cases "cfg_window_min cfg = 0")
    case True
    show ?thesis
      apply (rule exI [of _ "(WDOG_INIT_DEFAULT h)
          \<lparr>perSel := wdt_gecko_convert_timeout (cfg_window_max cfg),
           winSel := wdogIllegalWindowDisable h,
           warnSel := wdogWarnTime75pct h\<rparr>"])
      unfolding wdt_gecko_install_timeout_def range_check
      using assms(1) rc True by (simp add: log_msg_def Let_def)
  next
    case False
    show ?thesis
      apply (rule exI [of _ "(WDOG_INIT_DEFAULT h)
          \<lparr>perSel := wdt_gecko_convert_timeout (cfg_window_max cfg),
           winSel := wdt_gecko_convert_window (cfg_window_min cfg)
              (timeout_in_cycles_tbl ! wdt_gecko_convert_timeout (cfg_window_max cfg)),
           warnSel := wdogWarnTime75pct h\<rparr>"])
      unfolding wdt_gecko_install_timeout_def range_check
      using assms(1) rc False rd by (simp add: log_msg_def Let_def)
  qed
qed

lemma install_timeout_defined: "wdt_gecko_install_timeout h cfg dev \<noteq> None"
proof (cases "timeout_valid (data dev)")
  case True
  then show ?thesis by (simp add: install_timeout_already)
next
  case False
  show ?thesis
  proof (cases "cfg_window_max cfg < 9 \<or> 262145 < cfg_window_max cfg")
    case True
    with False show ?thesis by (simp add: install_timeout_out_of_range)
  next
    case inside: False
    then have "9 \<le> cfg_window_max cfg" "cfg_window_max cfg \<le> 262145"
      by auto
    from install_timeout_in_range [OF False this, of h] show ?thesis
      by (auto split: if_splits)
  qed
qed

lemma install_timeout_success:
  assumes "wdt_gecko_install_timeout h cfg dev = Some (Inr (), dev')"
  shows "\<not> timeout_valid (data dev) \<and> timeout_valid (data dev') \<and>
         callback (data dev') = cfg_callback cfg \<and> effects dev' = effects dev"
proof -
  have nv: "\<not> timeout_valid (data dev)"
    using assms by (auto simp: install_timeout_already)
  have "\<not> (cfg_window_max cfg < 9 \<or> 262145 < cfg_window_max cfg)"
  proof
    assume "cfg_window_max cfg < 9 \<or> 262145 < cfg_window_max cfg"
    from install_timeout_out_of_range [OF nv this, of h] assms show False
      by simp
  qed
  then have inside: "9 \<le> cfg_window_max cfg" "cfg_window_max cfg \<le> 262145"
    by (simp_all add: not_less)
  from install_timeout_in_range [OF nv inside, of h] assms nv show ?thesis
    by (auto split: if_splits)
qed

lemma install_timeout_failure:
  assumes "wdt_gecko_install_timeout h cfg dev = Some (Inl e, dev')"
  shows "callback (data dev') = callback (data dev) \<and>
         timeout_valid (data dev') = timeout_valid (data dev) \<and>
         effects dev' = effects dev \<and>
         (timeout_valid (data dev) \<or> cfg_window_max cfg < 9 \<or> 262145 < cfg_window_max cfg
            \<longrightarrow> data dev' = data dev)"
proof (cases "timeout_valid (data dev)")
  case True
  with assms show ?thesis by (auto simp: install_timeout_already)
next
  case nv: False
  show ?thesis
  proof (cases "cfg_window_max cfg < 9 \<or> 262145 < cfg_window_max cfg")
    case True
    with assms nv show ?thesis by (auto simp: install_timeout_out_of_range)
  next
    case False
    then have inside: "9 \<le> cfg_window_max cfg" "cfg_window_max cfg \<le> 262145"
      by auto
    from install_timeout_in_range [OF nv inside, of h] assms nv False show ?thesis
      by (auto split: if_splits)
  qed
qed

text \<open>
  A successful call does not read the configuration that was there before: it starts
  from the defaults.
\<close>

lemma install_timeout_overwrites_config:
  "wdt_gecko_install_timeout h cfg dev = Some (Inr (), dev1) \<Longrightarrow>
   wdt_gecko_install_timeout h cfg (dev\<lparr>data := (data dev)\<lparr>wdog_config := c\<rparr>\<rparr>)
     = Some (Inr (), dev1)"
  by (auto simp: wdt_gecko_install_timeout_def log_msg_def Let_def
      split: if_splits option.splits)

lemma sample_install:
  "wdt_gecko_install_timeout sample_headers sample_request power_on = Some (Inr (), staged_device)"
  by code_simp

lemma sample_setup:
  "wdt_gecko_setup sample_headers 0 staged_device = (Inr (), running_device)"
  by code_simp

text \<open>
  Claim C4. In \<open>wdt_gecko_install_timeout\<close> the table is read at \<open>perSel\<close> only
  after the range check on \<open>window.max\<close>, and never out of bounds: the function has
  a defined result for every request and every device, and whenever \<open>window.max\<close> is
  within the range that the check lets through, the index that
  \<open>wdt_gecko_convert_timeout\<close> returns is at most 15 and the read at it is inside
  the table. The check is what keeps the read inside: the search alone returns 16 for
  262146, and a read at 16 is outside.
\<close>

theorem install_timeout_table_index:
  "wdt_gecko_install_timeout h cfg dev \<noteq> None \<and>
   (timeout_in_cycles_tbl ! 0 \<le> cfg_window_max cfg \<and>
    cfg_window_max cfg \<le> timeout_in_cycles_tbl ! (length timeout_in_cycles_tbl - 1) \<longrightarrow>
      wdt_gecko_convert_timeout (cfg_window_max cfg) \<le> 15 \<and>
      tbl_read (wdt_gecko_convert_timeout (cfg_window_max cfg))
        = Some (timeout_in_cycles_tbl ! wdt_gecko_convert_timeout (cfg_window_max cfg))) \<and>
   wdt_gecko_convert_timeout 262146 = 16 \<and>
   tbl_read 16 = None"
proof -
  have "wdt_gecko_convert_timeout (cfg_window_max cfg) \<le> 15 \<and>
      tbl_read (wdt_gecko_convert_timeout (cfg_window_max cfg))
        = Some (timeout_in_cycles_tbl ! wdt_gecko_convert_timeout (cfg_window_max cfg))"
    if "cfg_window_max cfg \<le> timeout_in_cycles_tbl ! (length timeout_in_cycles_tbl - 1)"
  proof -
    from that have le: "cfg_window_max cfg \<le> 262145"
      by (simp add: tbl_length tbl_last)
    from convert_timeout_in_table [OF le] tbl_read_convert_timeout [OF le]
    show ?thesis by simp
  qed
  moreover have "wdt_gecko_convert_timeout 262146 = 16"
    by code_simp
  moreover have "tbl_read 16 = None"
    by (simp add: tbl_read_def tbl_length)
  ultimately show ?thesis
    using install_timeout_defined [of h cfg dev] by blast
qed

text \<open>
  The theorem at the sample request, whose window minimum is not 0, so that the table
  is read: the index is 7 and the period read is 1025.
\<close>

theorem install_timeout_table_index_witness:
  "timeout_in_cycles_tbl ! 0 \<le> cfg_window_max sample_request \<and>
   cfg_window_max sample_request \<le> timeout_in_cycles_tbl ! (length timeout_in_cycles_tbl - 1) \<and>
   cfg_window_min sample_request \<noteq> 0 \<and>
   wdt_gecko_convert_timeout (cfg_window_max sample_request) = 7 \<and>
   tbl_read (wdt_gecko_convert_timeout (cfg_window_max sample_request)) = Some 1025 \<and>
   wdt_gecko_install_timeout sample_headers sample_request power_on = Some (Inr (), staged_device)"
proof -
  have range: "timeout_in_cycles_tbl ! 0 \<le> cfg_window_max sample_request \<and>
      cfg_window_max sample_request \<le> timeout_in_cycles_tbl ! (length timeout_in_cycles_tbl - 1)"
    by (simp add: timeout_in_cycles_tbl_def sample_request_def)
  have val: "wdt_gecko_convert_timeout (cfg_window_max sample_request) = 7"
    by code_simp
  have entry: "timeout_in_cycles_tbl ! 7 = 1025"
    by (simp add: timeout_in_cycles_tbl_def)
  from install_timeout_table_index [of sample_headers sample_request power_on] range
  have "tbl_read (wdt_gecko_convert_timeout (cfg_window_max sample_request))
          = Some (timeout_in_cycles_tbl ! wdt_gecko_convert_timeout (cfg_window_max sample_request))"
    by blast
  then have "tbl_read (wdt_gecko_convert_timeout (cfg_window_max sample_request)) = Some 1025"
    by (simp add: val entry)
  moreover have "cfg_window_min sample_request \<noteq> 0"
    by (simp add: sample_request_def)
  ultimately show ?thesis
    using range val sample_install by blast
qed

text \<open>
  Claim C6. On a device with no valid timeout, a request whose \<open>window.max\<close> is below
  \<open>timeout_in_cycles_tbl[0] = 9\<close> or above \<open>timeout_in_cycles_tbl[15] = 262145\<close>
  fails: the function returns \<open>-EINVAL\<close>, logs that the upper limit is out of range
  and changes nothing else. For \<open>window.max\<close> from 9 to 262145 the check passes: the
  call does not log that error, it resolves the period selector, and it succeeds unless
  the flags are none of the three supported ones.
\<close>

theorem install_timeout_range_check:
  assumes "\<not> timeout_valid (data dev)"
  shows "(cfg_window_max cfg < 9 \<or> 262145 < cfg_window_max cfg \<longrightarrow>
            wdt_gecko_install_timeout h cfg dev
              = Some (Inl EINVAL,
                  dev\<lparr>logs := logs dev @ [LOG_ERR ''Upper limit timeout out of range'']\<rparr>)) \<and>
         (9 \<le> cfg_window_max cfg \<and> cfg_window_max cfg \<le> 262145 \<longrightarrow>
            (\<exists>dev'. wdt_gecko_install_timeout h cfg dev
                = Some (if cfg_flags cfg = WDT_FLAG_RESET_SOC h \<or>
                           cfg_flags cfg = WDT_FLAG_RESET_CPU_CORE h \<or>
                           cfg_flags cfg = WDT_FLAG_RESET_NONE h
                        then Inr () else Inl EINVAL, dev') \<and>
              LOG_ERR ''Upper limit timeout out of range'' \<notin> set (drop (length (logs dev)) (logs dev')) \<and>
              perSel (wdog_config (data dev')) = wdt_gecko_convert_timeout (cfg_window_max cfg))) \<and>
         timeout_in_cycles_tbl ! 0 = 9 \<and>
         timeout_in_cycles_tbl ! (length timeout_in_cycles_tbl - 1) = 262145"
proof -
  have inside: "\<exists>dev'. wdt_gecko_install_timeout h cfg dev
                = Some (if cfg_flags cfg = WDT_FLAG_RESET_SOC h \<or>
                           cfg_flags cfg = WDT_FLAG_RESET_CPU_CORE h \<or>
                           cfg_flags cfg = WDT_FLAG_RESET_NONE h
                        then Inr () else Inl EINVAL, dev') \<and>
              LOG_ERR ''Upper limit timeout out of range'' \<notin> set (drop (length (logs dev)) (logs dev')) \<and>
              perSel (wdog_config (data dev')) = wdt_gecko_convert_timeout (cfg_window_max cfg)"
    if "9 \<le> cfg_window_max cfg" "cfg_window_max cfg \<le> 262145"
    using install_timeout_in_range [OF assms that, of h] by auto
  have "timeout_in_cycles_tbl ! (length timeout_in_cycles_tbl - 1) = 262145"
    by (simp add: tbl_length tbl_last)
  then show ?thesis
    using install_timeout_out_of_range [OF assms, of cfg h] inside tbl_first by blast
qed

text \<open>
  The theorem at power-on, for a request with \<open>window.max = 1\<close>, which is rejected,
  and for the sample request, which is accepted.
\<close>

theorem install_timeout_range_check_witness:
  "\<not> timeout_valid (data power_on) \<and>
   ((1::u32) < 9 \<or> (262145::u32) < 1) \<and>
   wdt_gecko_install_timeout sample_headers
       \<lparr>cfg_window_min = 0, cfg_window_max = 1, cfg_callback = None, cfg_flags = 2\<rparr> power_on
     = Some (Inl EINVAL, power_on\<lparr>logs := [LOG_ERR ''Upper limit timeout out of range'']\<rparr>) \<and>
   (9::u32) \<le> 1000 \<and> (1000::u32) \<le> 262145 \<and>
   wdt_gecko_install_timeout sample_headers sample_request power_on = Some (Inr (), staged_device) \<and>
   perSel (wdog_config (data staged_device)) = wdt_gecko_convert_timeout 1000"
proof -
  let ?cfg = "\<lparr>cfg_window_min = 0, cfg_window_max = 1, cfg_callback = None, cfg_flags = 2\<rparr>"
  have nv: "\<not> timeout_valid (data power_on)"
    by (simp add: power_on_def)
  have out: "cfg_window_max ?cfg < 9 \<or> 262145 < cfg_window_max ?cfg"
    by simp
  have ins: "9 \<le> cfg_window_max sample_request \<and> cfg_window_max sample_request \<le> 262145"
    by (simp add: sample_request_def)
  from install_timeout_range_check [OF nv, of ?cfg sample_headers] out
  have "wdt_gecko_install_timeout sample_headers ?cfg power_on
     = Some (Inl EINVAL,
         power_on\<lparr>logs := logs power_on @ [LOG_ERR ''Upper limit timeout out of range'']\<rparr>)"
    by blast
  then have a: "wdt_gecko_install_timeout sample_headers ?cfg power_on
     = Some (Inl EINVAL, power_on\<lparr>logs := [LOG_ERR ''Upper limit timeout out of range'']\<rparr>)"
    by (simp add: power_on_def)
  from install_timeout_range_check [OF nv, of sample_request sample_headers] ins
  obtain dev' where "wdt_gecko_install_timeout sample_headers sample_request power_on
       = Some (if cfg_flags sample_request = WDT_FLAG_RESET_SOC sample_headers \<or>
                  cfg_flags sample_request = WDT_FLAG_RESET_CPU_CORE sample_headers \<or>
                  cfg_flags sample_request = WDT_FLAG_RESET_NONE sample_headers
               then Inr () else Inl EINVAL, dev')"
    and sel: "perSel (wdog_config (data dev'))
                = wdt_gecko_convert_timeout (cfg_window_max sample_request)"
    by blast
  then have "dev' = staged_device"
    by (simp add: sample_install)
  with sel have b: "perSel (wdog_config (data staged_device)) = wdt_gecko_convert_timeout 1000"
    by (simp add: sample_request_def)
  show ?thesis
    using nv a b sample_install by simp
qed

subsection \<open>The valid flag across calls\<close>

text \<open>
  \<open>timeout_valid\<close> is cleared by \<open>wdt_gecko_disable\<close>, set by a successful
  \<open>wdt_gecko_install_timeout\<close> and left alone by everything else.
\<close>

lemma timeout_valid_after_call:
  assumes "exec_call h c dev = Some (r, dev')"
  shows "timeout_valid (data dev') =
     (case c of
        Disable \<Rightarrow> False
      | Install_timeout cfg \<Rightarrow> timeout_valid (data dev) \<or> r = Inr ()
      | _ \<Rightarrow> timeout_valid (data dev))"
proof (cases c)
  case (Install_timeout cfg)
  show ?thesis
  proof (cases r)
    case (Inl e)
    with assms Install_timeout install_timeout_failure [of h cfg dev e dev'] show ?thesis
      by simp
  next
    case (Inr u)
    with assms Install_timeout install_timeout_success [of h cfg dev dev'] show ?thesis
      by simp
  qed
next
  case (Setup options)
  with assms show ?thesis
    by (auto simp: wdt_gecko_setup_def log_msg_def do_effect_def Let_def split: if_splits)
next
  case (Feed channel_id)
  with assms show ?thesis
    by (auto simp: wdt_gecko_feed_def log_msg_def do_effect_def split: if_splits)
next
  case Disable
  with assms show ?thesis
    by (auto simp: wdt_gecko_disable_def log_msg_def do_effect_def Let_def)
next
  case (Isr pending)
  with assms show ?thesis
    by (auto simp: wdt_gecko_isr_def do_effect_def Let_def split: option.splits)
qed

text \<open>
  While the flag is set and \<open>wdt_gecko_disable\<close> is not called, the callback and the
  selections made by \<open>wdt_gecko_install_timeout\<close> stay; \<open>wdt_gecko_setup\<close>
  writes the three run flags only.
\<close>

lemma exec_call_keeps_staged:
  assumes "c \<noteq> Disable" and "timeout_valid (data dev)"
    and "exec_call h c dev = Some (r, dev')"
  shows "timeout_valid (data dev') \<and> callback (data dev') = callback (data dev) \<and>
     perSel (wdog_config (data dev')) = perSel (wdog_config (data dev)) \<and>
     winSel (wdog_config (data dev')) = winSel (wdog_config (data dev)) \<and>
     warnSel (wdog_config (data dev')) = warnSel (wdog_config (data dev)) \<and>
     resetDisable (wdog_config (data dev')) = resetDisable (wdog_config (data dev))"
proof (cases c)
  case (Install_timeout cfg)
  with assms install_timeout_already [OF assms(2), of h cfg] have "data dev' = data dev"
    by auto
  with assms(2) show ?thesis by simp
next
  case (Setup options)
  with assms show ?thesis
    by (auto simp: wdt_gecko_setup_def log_msg_def do_effect_def Let_def split: if_splits)
next
  case (Feed channel_id)
  with assms have "data dev' = data dev"
    by (auto simp: wdt_gecko_feed_def log_msg_def do_effect_def split: if_splits)
  with assms(2) show ?thesis by simp
next
  case Disable
  with assms show ?thesis by simp
next
  case (Isr pending)
  with assms have "data dev' = data dev"
    by (auto simp: wdt_gecko_isr_def do_effect_def Let_def split: option.splits)
  with assms(2) show ?thesis by simp
qed

lemma exec_calls_keep_staged:
  "Disable \<notin> set cs \<Longrightarrow> timeout_valid (data dev) \<Longrightarrow> exec_calls h cs dev = Some dev' \<Longrightarrow>
   timeout_valid (data dev') \<and> callback (data dev') = callback (data dev) \<and>
     perSel (wdog_config (data dev')) = perSel (wdog_config (data dev)) \<and>
     winSel (wdog_config (data dev')) = winSel (wdog_config (data dev)) \<and>
     warnSel (wdog_config (data dev')) = warnSel (wdog_config (data dev)) \<and>
     resetDisable (wdog_config (data dev')) = resetDisable (wdog_config (data dev))"
proof (induction cs arbitrary: dev)
  case Nil
  then show ?case by simp
next
  case (Cons c cs)
  from Cons.prems(3) obtain r mid where
    step: "exec_call h c dev = Some (r, mid)" and rest: "exec_calls h cs mid = Some dev'"
    by (auto split: option.splits)
  from Cons.prems(1) have no: "c \<noteq> Disable" "Disable \<notin> set cs"
    by auto
  note mid = exec_call_keeps_staged [OF no(1) Cons.prems(2) step]
  from mid have "timeout_valid (data mid)" by simp
  from Cons.IH [OF no(2) this rest] mid show ?case
    by simp
qed

text \<open>
  Claim C5. After a successful \<open>wdt_gecko_install_timeout\<close>, and after any calls of
  the driver other than \<open>wdt_gecko_disable\<close>, a second
  \<open>wdt_gecko_install_timeout\<close> returns \<open>-ENOMEM\<close> and changes neither the device
  data nor the peripheral. The callback and the period, window, warning and reset
  settings are still those of the first call; when the second call follows the first
  directly, the whole device data is what the first call left.
\<close>

theorem second_install_timeout_fails:
  assumes "wdt_gecko_install_timeout h cfg1 dev0 = Some (Inr (), dev1)"
    and "Disable \<notin> set cs"
    and "exec_calls h cs dev1 = Some dev2"
  shows "\<exists>dev3. wdt_gecko_install_timeout h cfg2 dev2 = Some (Inl ENOMEM, dev3) \<and>
     data dev3 = data dev2 \<and> effects dev3 = effects dev2 \<and>
     callback (data dev3) = callback (data dev1) \<and>
     perSel (wdog_config (data dev3)) = perSel (wdog_config (data dev1)) \<and>
     winSel (wdog_config (data dev3)) = winSel (wdog_config (data dev1)) \<and>
     warnSel (wdog_config (data dev3)) = warnSel (wdog_config (data dev1)) \<and>
     resetDisable (wdog_config (data dev3)) = resetDisable (wdog_config (data dev1)) \<and>
     (cs = [] \<longrightarrow> data dev3 = data dev1)"
proof -
  from install_timeout_success [OF assms(1)]
  have first: "timeout_valid (data dev1)"
    by simp
  note kept = exec_calls_keep_staged [OF assms(2) first assms(3)]
  have direct: "dev2 = dev1" if "cs = []"
    using that assms(3) by simp
  let ?dev3 = "dev2\<lparr>logs := logs dev2 @ [LOG_ERR ''No more timeouts can be installed'']\<rparr>"
  have "timeout_valid (data dev2)"
    using kept by simp
  then have "wdt_gecko_install_timeout h cfg2 dev2 = Some (Inl ENOMEM, ?dev3)"
    by (rule install_timeout_already)
  moreover have "data ?dev3 = data dev2" "effects ?dev3 = effects dev2"
    by simp_all
  ultimately show ?thesis
    using kept direct by auto
qed

text \<open>
  The theorem for the sample request at power-on, followed by a second request, once
  after \<open>wdt_gecko_setup\<close> and once directly.
\<close>

theorem second_install_timeout_fails_witness:
  "wdt_gecko_install_timeout sample_headers sample_request power_on = Some (Inr (), staged_device) \<and>
   Disable \<notin> set [Setup 0] \<and>
   exec_calls sample_headers [Setup 0] staged_device = Some running_device \<and>
   wdt_gecko_install_timeout sample_headers
       \<lparr>cfg_window_min = 0, cfg_window_max = 5000, cfg_callback = None, cfg_flags = 0\<rparr>
       running_device
     = Some (Inl ENOMEM,
         running_device\<lparr>logs := logs running_device
                                   @ [LOG_ERR ''No more timeouts can be installed'']\<rparr>) \<and>
   exec_calls sample_headers [] staged_device = Some staged_device \<and>
   wdt_gecko_install_timeout sample_headers sample_request staged_device
     = Some (Inl ENOMEM,
         staged_device\<lparr>logs := logs staged_device
                                  @ [LOG_ERR ''No more timeouts can be installed'']\<rparr>)"
proof -
  let ?cfg2 = "\<lparr>cfg_window_min = 0, cfg_window_max = 5000, cfg_callback = None, cfg_flags = 0\<rparr>"
  have no: "Disable \<notin> set [Setup 0]"
    by simp
  have run: "exec_calls sample_headers [Setup 0] staged_device = Some running_device"
    by (simp add: sample_setup)
  have run0: "exec_calls sample_headers [] staged_device = Some staged_device"
    by simp
  from second_install_timeout_fails [OF sample_install no run, of ?cfg2]
  obtain dev3 where
    "wdt_gecko_install_timeout sample_headers ?cfg2 running_device = Some (Inl ENOMEM, dev3)"
    by blast
  moreover from this
  have "dev3 = running_device\<lparr>logs := logs running_device
                                   @ [LOG_ERR ''No more timeouts can be installed'']\<rparr>"
    by (simp add: wdt_gecko_install_timeout_def running_device_def log_msg_def)
  moreover from second_install_timeout_fails [OF sample_install _ run0, of sample_request]
  obtain dev3' where
    "wdt_gecko_install_timeout sample_headers sample_request staged_device = Some (Inl ENOMEM, dev3')"
    by auto
  moreover from this
  have "dev3' = staged_device\<lparr>logs := logs staged_device
                                   @ [LOG_ERR ''No more timeouts can be installed'']\<rparr>"
    by (simp add: wdt_gecko_install_timeout_def staged_device_def log_msg_def)
  ultimately show ?thesis
    using sample_install no run run0 by simp
qed

text \<open>
  Claim C10. On a device with no valid timeout, \<open>wdt_gecko_setup\<close> returns
  \<open>-EINVAL\<close>, logs that no valid timeout is installed, and leaves the device data
  and the peripheral as they were. The flag is clear in exactly the states the claim
  names: it is clear at power-on and after \<open>wdt_gecko_init\<close>, clear after every
  \<open>wdt_gecko_disable\<close>, set after a call of \<open>wdt_gecko_install_timeout\<close> only if
  it was set before or the call succeeded, and unchanged by every other call.
\<close>

theorem setup_without_timeout:
  "(\<not> timeout_valid (data dev) \<longrightarrow>
      wdt_gecko_setup h options dev
        = (Inl EINVAL, dev\<lparr>logs := logs dev @ [LOG_ERR ''No valid timeouts installed'']\<rparr>)) \<and>
   \<not> timeout_valid (data power_on) \<and>
   \<not> timeout_valid (data (snd (wdt_gecko_init disable_at_boot dev_name power_on))) \<and>
   (exec_call h c dev = Some (r, dev') \<longrightarrow>
      timeout_valid (data dev') =
        (case c of
           Disable \<Rightarrow> False
         | Install_timeout cfg \<Rightarrow> timeout_valid (data dev) \<or> r = Inr ()
         | _ \<Rightarrow> timeout_valid (data dev)))"
proof -
  have "wdt_gecko_setup h options dev
        = (Inl EINVAL, dev\<lparr>logs := logs dev @ [LOG_ERR ''No valid timeouts installed'']\<rparr>)"
    if "\<not> timeout_valid (data dev)"
    using that by (simp add: wdt_gecko_setup_def log_msg_def)
  moreover have "\<not> timeout_valid (data power_on)"
    by (simp add: power_on_def)
  moreover have "\<not> timeout_valid (data (snd (wdt_gecko_init disable_at_boot dev_name power_on)))"
    by (simp add: wdt_gecko_init_def wdt_gecko_disable_def power_on_def log_msg_def
        do_effect_def Let_def)
  ultimately show ?thesis
    using timeout_valid_after_call [of h c dev r dev'] by blast
qed

text \<open>The theorem at power-on, and on the running sample device once it is disabled.\<close>

theorem setup_without_timeout_witness:
  "\<not> timeout_valid (data power_on) \<and>
   wdt_gecko_setup sample_headers 0 power_on
     = (Inl EINVAL, power_on\<lparr>logs := [LOG_ERR ''No valid timeouts installed'']\<rparr>) \<and>
   exec_call sample_headers Disable running_device
     = Some (Inr (), snd (wdt_gecko_disable running_device)) \<and>
   \<not> timeout_valid (data (snd (wdt_gecko_disable running_device))) \<and>
   wdt_gecko_setup sample_headers 0 (snd (wdt_gecko_disable running_device))
     = (Inl EINVAL,
        (snd (wdt_gecko_disable running_device))
          \<lparr>logs := logs (snd (wdt_gecko_disable running_device))
                     @ [LOG_ERR ''No valid timeouts installed'']\<rparr>)"
proof -
  let ?off = "snd (wdt_gecko_disable running_device)"
  have nv: "\<not> timeout_valid (data power_on)"
    by (simp add: power_on_def)
  have step: "exec_call sample_headers Disable running_device = Some (Inr (), ?off)"
    by (simp add: wdt_gecko_disable_def Let_def)
  from setup_without_timeout [of power_on sample_headers 0] nv
  have "wdt_gecko_setup sample_headers 0 power_on
     = (Inl EINVAL, power_on\<lparr>logs := logs power_on @ [LOG_ERR ''No valid timeouts installed'']\<rparr>)"
    by blast
  then have a: "wdt_gecko_setup sample_headers 0 power_on
     = (Inl EINVAL, power_on\<lparr>logs := [LOG_ERR ''No valid timeouts installed'']\<rparr>)"
    by (simp add: power_on_def)
  from setup_without_timeout
         [where h = sample_headers and c = Disable and dev = running_device
            and r = "Inr ()" and dev' = ?off] step
  have nv': "\<not> timeout_valid (data ?off)"
    by simp
  from setup_without_timeout [of ?off sample_headers 0] nv'
  have "wdt_gecko_setup sample_headers 0 ?off
     = (Inl EINVAL, ?off\<lparr>logs := logs ?off @ [LOG_ERR ''No valid timeouts installed'']\<rparr>)"
    by blast
  then show ?thesis
    using nv a step nv' by simp
qed

subsection \<open>Feeding and the interrupt handler\<close>

text \<open>
  Claim C9. For every device and every channel other than 0, \<open>wdt_gecko_feed\<close>
  returns \<open>-EINVAL\<close>, logs the invalid channel and does nothing to the peripheral.
  For channel 0 it succeeds, on every device and so on a running one, and calls
  \<open>WDOGn_Feed\<close> exactly once.
\<close>

theorem feed_checks_channel:
  "(channel_id \<noteq> 0 \<longrightarrow>
      wdt_gecko_feed channel_id dev
        = (Inl EINVAL, dev\<lparr>logs := logs dev @ [LOG_ERR ''Invalid channel id'']\<rparr>)) \<and>
   wdt_gecko_feed 0 dev
     = (Inr (), dev\<lparr>effects := effects dev @ [WDOGn_Feed],
                     logs := logs dev @ [LOG_DBG ''Fed the watchdog'']\<rparr>)"
  by (simp add: wdt_gecko_feed_def log_msg_def do_effect_def)

text \<open>
  The theorem on the sample device, which is running after install and setup: channel
  1 is refused and channel 0 feeds the watchdog.
\<close>

theorem feed_checks_channel_witness:
  "(1::int) \<noteq> 0 \<and>
   wdt_gecko_feed 1 running_device
     = (Inl EINVAL,
        running_device\<lparr>logs := logs running_device @ [LOG_ERR ''Invalid channel id'']\<rparr>) \<and>
   wdt_gecko_install_timeout sample_headers sample_request power_on = Some (Inr (), staged_device) \<and>
   wdt_gecko_setup sample_headers 0 staged_device = (Inr (), running_device) \<and>
   wdt_gecko_feed 0 running_device
     = (Inr (), running_device\<lparr>effects := effects running_device @ [WDOGn_Feed],
                                logs := logs running_device @ [LOG_DBG ''Fed the watchdog'']\<rparr>)"
proof -
  have ne: "(1::int) \<noteq> 0"
    by simp
  from feed_checks_channel [of 1 running_device] ne
  have "wdt_gecko_feed 1 running_device
     = (Inl EINVAL,
        running_device\<lparr>logs := logs running_device @ [LOG_ERR ''Invalid channel id'']\<rparr>)"
    by blast
  moreover from feed_checks_channel [of 1 running_device]
  have "wdt_gecko_feed 0 running_device
     = (Inr (), running_device\<lparr>effects := effects running_device @ [WDOGn_Feed],
                                logs := logs running_device @ [LOG_DBG ''Fed the watchdog'']\<rparr>)"
    by blast
  ultimately show ?thesis
    using sample_install sample_setup by simp
qed

text \<open>
  Claim C8. The interrupt handler reads the interrupt flags and clears exactly the
  value it read. With a callback registered it then calls the callback once, with
  channel 0; with none registered it calls nothing.
\<close>

theorem isr_clears_read_flags_and_calls_back:
  "(callback (data dev) = Some cb \<longrightarrow>
      wdt_gecko_isr pending dev
        = dev\<lparr>effects := effects dev @
              [WDOGn_IntGet pending, WDOGn_IntClear pending, Callback_invoked cb 0]\<rparr>) \<and>
   (callback (data dev) = None \<longrightarrow>
      wdt_gecko_isr pending dev
        = dev\<lparr>effects := effects dev @ [WDOGn_IntGet pending, WDOGn_IntClear pending]\<rparr>)"
  by (simp add: wdt_gecko_isr_def do_effect_def Let_def)

text \<open>
  The theorem on the running sample device, whose callback is registered, and at
  power-on, where none is.
\<close>

theorem isr_clears_read_flags_and_calls_back_witness:
  "callback (data running_device) = Some 7 \<and>
   wdt_gecko_isr 2 running_device
     = running_device\<lparr>effects := effects running_device @
          [WDOGn_IntGet 2, WDOGn_IntClear 2, Callback_invoked 7 0]\<rparr> \<and>
   callback (data power_on) = None \<and>
   wdt_gecko_isr 3 power_on = power_on\<lparr>effects := [WDOGn_IntGet 3, WDOGn_IntClear 3]\<rparr>"
proof -
  have cb: "callback (data running_device) = Some 7"
    by (simp add: running_device_def)
  have none: "callback (data power_on) = None"
    by (simp add: power_on_def)
  from isr_clears_read_flags_and_calls_back [of running_device 7 2] cb
  have "wdt_gecko_isr 2 running_device
     = running_device\<lparr>effects := effects running_device @
          [WDOGn_IntGet 2, WDOGn_IntClear 2, Callback_invoked 7 0]\<rparr>"
    by blast
  moreover from isr_clears_read_flags_and_calls_back [of power_on 0 3] none
  have "wdt_gecko_isr 3 power_on
     = power_on\<lparr>effects := effects power_on @ [WDOGn_IntGet 3, WDOGn_IntClear 3]\<rparr>"
    by blast
  then have "wdt_gecko_isr 3 power_on = power_on\<lparr>effects := [WDOGn_IntGet 3, WDOGn_IntClear 3]\<rparr>"
    by (simp add: power_on_def)
  ultimately show ?thesis
    using cb none by simp
qed

subsection \<open>What a failed call leaves behind\<close>

text \<open>
  Claim C2 says that every call that returns an error leaves the staged configuration,
  the callback and the valid flag as they were. \<open>wdt_gecko_install_timeout\<close>
  assigns \<open>data->wdog_config\<close> before its \<open>switch\<close> on the flags, so a request
  with an unsupported flag value returns \<open>-EINVAL\<close> with the defaults and the
  resolved selections already written: at power-on the period selector was 0 and the
  warning selector 0, after the rejected request they are 7 and 3.
\<close>

theorem rejected_flags_overwrite_config_counterexample:
  "wdt_gecko_install_timeout sample_headers
       \<lparr>cfg_window_min = 0, cfg_window_max = 1000, cfg_callback = None, cfg_flags = 3\<rparr> power_on
     = Some (Inl EINVAL,
         \<lparr>data = \<lparr>callback = None,
                  wdog_config = \<lparr>debugRun = False, em2Run = False, em3Run = False,
                                 perSel = 7, warnSel = 3, winSel = 0, resetDisable = False\<rparr>,
                  timeout_valid = False\<rparr>,
          effects = [],
          logs = [LOG_ERR ''Unsupported watchdog config flag'']\<rparr>) \<and>
   wdog_config (data power_on)
     = \<lparr>debugRun = False, em2Run = False, em3Run = False,
        perSel = 0, warnSel = 0, winSel = 0, resetDisable = False\<rparr> \<and>
   wdog_config (data power_on)
     \<noteq> \<lparr>debugRun = False, em2Run = False, em3Run = False,
        perSel = 7, warnSel = 3, winSel = 0, resetDisable = False\<rparr>"
proof -
  have "wdt_gecko_install_timeout sample_headers
       \<lparr>cfg_window_min = 0, cfg_window_max = 1000, cfg_callback = None, cfg_flags = 3\<rparr> power_on
     = Some (Inl EINVAL,
         \<lparr>data = \<lparr>callback = None,
                  wdog_config = \<lparr>debugRun = False, em2Run = False, em3Run = False,
                                 perSel = 7, warnSel = 3, winSel = 0, resetDisable = False\<rparr>,
                  timeout_valid = False\<rparr>,
          effects = [],
          logs = [LOG_ERR ''Unsupported watchdog config flag'']\<rparr>)"
    by code_simp
  then show ?thesis
    by (simp add: power_on_def)
qed

text \<open>
  Claim C2, amended. Whenever \<open>wdt_gecko_install_timeout\<close>, \<open>wdt_gecko_setup\<close>
  or \<open>wdt_gecko_feed\<close> returns an error, the callback and the valid flag are what
  they were before the call and nothing was done to the peripheral;
  \<open>wdt_gecko_disable\<close> never returns an error. The staged configuration is unchanged
  as well after an error of \<open>wdt_gecko_setup\<close> or \<open>wdt_gecko_feed\<close>, and after
  \<open>wdt_gecko_install_timeout\<close> refuses a second timeout or a \<open>window.max\<close>
  out of range.
\<close>

theorem error_keeps_callback_and_valid_flag:
  "(wdt_gecko_install_timeout h cfg dev = Some (Inl e, dev') \<longrightarrow>
      callback (data dev') = callback (data dev) \<and>
      timeout_valid (data dev') = timeout_valid (data dev) \<and>
      effects dev' = effects dev \<and>
      (timeout_valid (data dev) \<or> cfg_window_max cfg < 9 \<or> 262145 < cfg_window_max cfg
         \<longrightarrow> data dev' = data dev)) \<and>
   (wdt_gecko_setup h options dev = (Inl e, dev') \<longrightarrow>
      data dev' = data dev \<and> effects dev' = effects dev) \<and>
   (wdt_gecko_feed channel_id dev = (Inl e, dev') \<longrightarrow>
      data dev' = data dev \<and> effects dev' = effects dev) \<and>
   wdt_gecko_disable dev \<noteq> (Inl e, dev')"
proof -
  have "data dev' = data dev \<and> effects dev' = effects dev"
    if "wdt_gecko_setup h options dev = (Inl e, dev')"
    using that
    by (auto simp: wdt_gecko_setup_def log_msg_def do_effect_def Let_def split: if_splits)
  moreover have "data dev' = data dev \<and> effects dev' = effects dev"
    if "wdt_gecko_feed channel_id dev = (Inl e, dev')"
    using that
    by (auto simp: wdt_gecko_feed_def log_msg_def do_effect_def split: if_splits)
  moreover have "wdt_gecko_disable dev \<noteq> (Inl e, dev')"
    by (simp add: wdt_gecko_disable_def Let_def)
  ultimately show ?thesis
    using install_timeout_failure [of h cfg dev e dev'] by blast
qed

text \<open>
  The theorem for the request with the unsupported flag value 3 at power-on: the
  callback of the request is not registered and the flag stays clear. The other three
  kinds of error are shown beside it.
\<close>

theorem error_keeps_callback_and_valid_flag_witness:
  "wdt_gecko_install_timeout sample_headers
       \<lparr>cfg_window_min = 0, cfg_window_max = 1000, cfg_callback = Some 9, cfg_flags = 3\<rparr>
       power_on
     = Some (Inl EINVAL,
         \<lparr>data = \<lparr>callback = None,
                  wdog_config = \<lparr>debugRun = False, em2Run = False, em3Run = False,
                                 perSel = 7, warnSel = 3, winSel = 0, resetDisable = False\<rparr>,
                  timeout_valid = False\<rparr>,
          effects = [],
          logs = [LOG_ERR ''Unsupported watchdog config flag'']\<rparr>) \<and>
   callback (data power_on) = None \<and> \<not> timeout_valid (data power_on) \<and>
   wdt_gecko_install_timeout sample_headers sample_request running_device
     = Some (Inl ENOMEM,
         running_device\<lparr>logs := logs running_device
                                   @ [LOG_ERR ''No more timeouts can be installed'']\<rparr>) \<and>
   wdt_gecko_setup sample_headers 0 power_on
     = (Inl EINVAL, power_on\<lparr>logs := [LOG_ERR ''No valid timeouts installed'']\<rparr>) \<and>
   wdt_gecko_feed 5 running_device
     = (Inl EINVAL,
        running_device\<lparr>logs := logs running_device @ [LOG_ERR ''Invalid channel id'']\<rparr>)"
proof -
  let ?bad = "\<lparr>cfg_window_min = 0, cfg_window_max = 1000, cfg_callback = Some 9, cfg_flags = 3\<rparr>"
  let ?dev' = "\<lparr>data = \<lparr>callback = None,
                  wdog_config = \<lparr>debugRun = False, em2Run = False, em3Run = False,
                                 perSel = 7, warnSel = 3, winSel = 0, resetDisable = False\<rparr>,
                  timeout_valid = False\<rparr>,
          effects = [],
          logs = [LOG_ERR ''Unsupported watchdog config flag'']\<rparr>"
  have a: "wdt_gecko_install_timeout sample_headers ?bad power_on = Some (Inl EINVAL, ?dev')"
    by code_simp
  from error_keeps_callback_and_valid_flag
         [of sample_headers ?bad power_on EINVAL ?dev'] a
  have "callback (data ?dev') = callback (data power_on) \<and>
        timeout_valid (data ?dev') = timeout_valid (data power_on)"
    by blast
  then have b: "callback (data power_on) = None \<and> \<not> timeout_valid (data power_on)"
    by simp
  have c: "wdt_gecko_install_timeout sample_headers sample_request running_device
     = Some (Inl ENOMEM,
         running_device\<lparr>logs := logs running_device
                                   @ [LOG_ERR ''No more timeouts can be installed'']\<rparr>)"
    by (simp add: wdt_gecko_install_timeout_def running_device_def log_msg_def)
  have d: "wdt_gecko_setup sample_headers 0 power_on
     = (Inl EINVAL, power_on\<lparr>logs := [LOG_ERR ''No valid timeouts installed'']\<rparr>)"
    by (simp add: wdt_gecko_setup_def power_on_def log_msg_def)
  have e: "wdt_gecko_feed 5 running_device
     = (Inl EINVAL,
        running_device\<lparr>logs := logs running_device @ [LOG_ERR ''Invalid channel id'']\<rparr>)"
    by (simp add: wdt_gecko_feed_def log_msg_def)
  show ?thesis
    using a b c d e by simp
qed

end
